theory Spec2Isabelle
  imports Main
begin

section \<open>The race script \<open>script/race_swap_vs_update.py\<close>\<close>

text \<open>
  The script sends two competing transactions from one sender: an update
  (\<open>GlobalStorage.setBatch\<close>, low priority fee, "transaction A" of the specification) and a
  swap (\<open>PropAMM.swapXtoY\<close>, high priority fee, "transaction B"), waits for both receipts
  and prints which one was executed first.

  Everything the script does lives in \<open>gwei\<close> and \<open>main\<close>. The embedding keeps the
  source's names and order. The node behind \<open>w3\<close>, \<open>Account\<close> and the process
  environment are parameters of the model (record \<open>env\<close>): each call to one of them may
  raise, which is the \<open>Inl\<close> branch of its answer.
\<close>

subsection \<open>Data\<close>

type_synonym address = string
type_synonym hexstr = string

text \<open>Python values stored in the transaction dictionaries: integers and strings.\<close>

datatype pyval = PyInt int | PyStr string

text \<open>\<open>bytes.fromhex(s)\<close>, kept symbolic: the bytes denoted by the hex digits \<open>s\<close>.\<close>

datatype bytes = fromhex string

text \<open>
  The contract functions of \<open>PROP_AMM_ABI\<close> and \<open>GLOBAL_STORAGE_ABI\<close>, applied to their
  arguments in the order of the ABI: \<open>swapXtoY(pairId, amountXIn, minAmountYOut)\<close>,
  \<open>getParameterKeys(pairId)\<close>, \<open>encodeParameters(concentration, multX, multY)\<close>,
  \<open>setBatch(keys, values)\<close>.
\<close>

datatype contract_function =
    swapXtoY bytes int int
  | getParameterKeys bytes
  | encodeParameters int int int
  | setBatch "bytes list" "bytes list"

text \<open>A function bound to the contract it is called on: \<open>contract.functions.f(args)\<close>.\<close>

type_synonym contract_call = "address \<times> contract_function"

text \<open>
  What \<open>build_transaction\<close> assembles: the target and call of the bound function, and
  the dictionary of fields the script passes in.
\<close>

record transaction =
  tx_to :: address
  tx_data :: contract_function
  tx_fields :: "string \<rightharpoonup> pyval"

record signed_transaction =
  raw_transaction :: string

text \<open>
  The receipt as the script reads it, one field for each key it looks up with
  \<open>.get\<close>. A receipt returned by \<open>wait_for_transaction_receipt\<close> belongs to a mined
  transaction and carries all of them.
\<close>

record receipt =
  status :: int
  blockNumber :: int
  blockHash :: string
  transactionIndex :: int
  gasUsed :: int
  effectiveGasPrice :: int

text \<open>The integer-valued fields of a block, by key; \<open>latest.get(k)\<close> is \<open>latest k\<close>.\<close>

type_synonym block = "string \<rightharpoonup> int"

datatype error =
    ValueError string
  | ContractLogicError string
  | Web3RPCError string
  | TimeExhausted

subsection \<open>Configuration constants (lines 10 to 16)\<close>

definition PROP_AMM_ADDRESS :: string where
  "PROP_AMM_ADDRESS = ''0xDc64a140Aa3E981100a9becA4E685f962f0cF6C9''"

definition GLOBAL_STORAGE_ADDRESS :: string where
  "GLOBAL_STORAGE_ADDRESS = ''0xe7f1725E7734CE288F8367e1Bb143E90bb3F0512''"

definition WETH_ADDRESS :: string where
  "WETH_ADDRESS = ''0x9fE46736679d2D9a65F0992F2272dE9f3c7fa6e0''"

definition USDC_ADDRESS :: string where
  "USDC_ADDRESS = ''0xCf7Ed3AccA5a467e9e704C703E8D87F634fB0Fc9''"

definition PAIR_ID :: string where
  "PAIR_ID = ''0x667546a103822a3ea5b74bdf319f969f53de0a26339708852cfa21db6575a3be''"

subsection \<open>\<open>gwei\<close> (lines 68 to 69)\<close>

definition gwei :: "int \<Rightarrow> int" where
  "gwei n = n * 10 ^ 9"

subsection \<open>Fee configuration (lines 118 to 131)\<close>

text \<open>
  The pair \<open>(fee_high, fee_low)\<close> of fee dictionaries, from
  \<open>base_fee = latest.get("baseFeePerGas")\<close>.
\<close>

definition fee_config :: "int option \<Rightarrow> (string \<rightharpoonup> int) \<times> (string \<rightharpoonup> int)" where
  "fee_config base_fee =
     (case base_fee of
        Some b \<Rightarrow>
          ([''maxPriorityFeePerGas'' \<mapsto> gwei 10, ''maxFeePerGas'' \<mapsto> b * 2 + gwei 10],
           [''maxPriorityFeePerGas'' \<mapsto> gwei 1, ''maxFeePerGas'' \<mapsto> b * 2 + gwei 1])
      | None \<Rightarrow>
          ([''gasPrice'' \<mapsto> gwei 100],
           [''gasPrice'' \<mapsto> gwei 20]))"

subsection \<open>What the script prints\<close>

text \<open>
  One constructor for each \<open>print\<close> of \<open>main\<close>, carrying the values interpolated into
  the line. Number formatting is not modelled: a line that shows a quotient
  (\<open>x / 10**9\<close>, \<open>x / 10**18\<close>) carries the dividend \<open>x\<close>. The signs printed in front of
  a message are a \<open>glyph\<close>.
\<close>

datatype glyph = WarningSign | CheckMark | CrossMark

datatype out_line =
    ConnectedToChainID int
  | SenderAddress address
  | EstimatedGas int int
  | SendingCompetingTransactions
  | SwapPriorityFee int
  | UpdatePriorityFee int
  | SentUpdate hexstr
  | SentSwap hexstr
  | WaitingForConfirmations
  | BlankLine
  | Rule
  | TransactionResults
  | SwapTransaction hexstr
  | UpdateTransaction hexstr
  | Status glyph string
  | BlockNumber int
  | BlockHash string
  | GasUsed int
  | EffectiveGasPrice int
  | TotalCost int
  | SameBlock
  | SwapBeforeUpdate glyph
  | UpdateBeforeSwap glyph
  | TransactionIndices int int
  | DifferentBlocksLine
  | SwapBlock int
  | UpdateBlock int

subsection \<open>The ordering verdict (lines 212 to 226)\<close>

text \<open>
  The three branches of the final \<open>if\<close>, each tagged with the specification's name for
  it. Transaction A is the update and transaction B is the swap, so the branch printing
  "Swap (high fee) executed BEFORE update" is \<open>SameBlockBFirst\<close> and the branch printing
  "Update (ToB priority) executed BEFORE swap" is \<open>SameBlockAFirst\<close>.
\<close>

datatype verdict = SameBlockAFirst | SameBlockBFirst | DifferentBlocks

definition ordering_verdict :: "receipt \<Rightarrow> receipt \<Rightarrow> verdict \<times> out_line list" where
  "ordering_verdict rcpt_swap rcpt_update =
     (if blockNumber rcpt_swap = blockNumber rcpt_update then
        (let tx_idx_swap = transactionIndex rcpt_swap;
             tx_idx_update = transactionIndex rcpt_update
         in if tx_idx_swap < tx_idx_update
            then (SameBlockBFirst,
                  [SameBlock, SwapBeforeUpdate WarningSign,
                   TransactionIndices tx_idx_swap tx_idx_update])
            else (SameBlockAFirst,
                  [SameBlock, UpdateBeforeSwap CheckMark,
                   TransactionIndices tx_idx_swap tx_idx_update]))
      else (DifferentBlocks,
            [DifferentBlocksLine, SwapBlock (blockNumber rcpt_swap),
             UpdateBlock (blockNumber rcpt_update)]))"

subsection \<open>The collaborators: node, account library, process environment\<close>

text \<open>
  The answers of the node behind \<open>w3.eth\<close>, one field for each method the script calls.
  \<open>node_call\<close> answers \<open>f.call()\<close>, \<open>node_estimate_gas\<close> answers
  \<open>f.estimate_gas({"from": a})\<close>.
\<close>

record node =
  node_chain_id :: "error + int"
  node_call :: "contract_call \<Rightarrow> error + bytes list"
  node_get_block :: "string \<Rightarrow> error + block"
  node_get_transaction_count :: "address \<Rightarrow> string \<Rightarrow> error + int"
  node_estimate_gas :: "contract_call \<Rightarrow> address \<Rightarrow> error + int"
  node_send_raw_transaction :: "string \<Rightarrow> error + hexstr"
  node_wait_for_transaction_receipt :: "hexstr \<Rightarrow> error + receipt"

text \<open>
  \<open>getenv\<close> is \<open>os.getenv\<close>; \<open>provider\<close> gives the node reached at a URL;
  \<open>from_key\<close> is the address of \<open>Account.from_key(k)\<close>; \<open>sign_transaction\<close> is
  \<open>Account.sign_transaction\<close>; \<open>to_checksum_address\<close> is \<open>Web3.to_checksum_address\<close>.
\<close>

record env =
  getenv :: "string \<rightharpoonup> string"
  provider :: "string \<Rightarrow> node"
  from_key :: "string option \<Rightarrow> error + address"
  sign_transaction :: "transaction \<Rightarrow> string option \<Rightarrow> error + signed_transaction"
  to_checksum_address :: "string \<Rightarrow> address"

definition RPC_URL :: "env \<Rightarrow> string" where
  "RPC_URL env = (case getenv env ''RPC_URL'' of None \<Rightarrow> ''http://localhost:8547'' | Some u \<Rightarrow> u)"

definition PRIVATE_KEY :: "env \<Rightarrow> string option" where
  "PRIVATE_KEY env = getenv env ''PRIVATE_KEY''"

subsection \<open>Effects: a trace of requests and printed lines, and exceptions\<close>

datatype request =
    Eth_chainId
  | Eth_call contract_call
  | Eth_getBlock string
  | Eth_getTransactionCount address string
  | Eth_estimateGas contract_call address
  | Eth_sendRawTransaction string
  | WaitForTransactionReceipt hexstr

datatype event = Request request | Print out_line

text \<open>
  A computation extends the trace of the events so far and returns a value or the
  exception raised (\<open>Inl\<close>). After an exception nothing more happens.
\<close>

type_synonym 'a io = "event list \<Rightarrow> (error + 'a) \<times> event list"

definition ret :: "'a \<Rightarrow> 'a io" where
  "ret x = (\<lambda>t. (Inr x, t))"

definition lift :: "error + 'a \<Rightarrow> 'a io" where
  "lift r = (\<lambda>t. (r, t))"

definition bnd :: "'a io \<Rightarrow> ('a \<Rightarrow> 'b io) \<Rightarrow> 'b io" where
  "bnd m f = (\<lambda>t. case m t of (Inl e, t') \<Rightarrow> (Inl e, t') | (Inr x, t') \<Rightarrow> f x t')"

definition rpc :: "request \<Rightarrow> error + 'a \<Rightarrow> 'a io" where
  "rpc q answer = (\<lambda>t. (answer, t @ [Request q]))"

definition prints :: "out_line list \<Rightarrow> unit io" where
  "prints ls = (\<lambda>t. (Inr (), t @ map Print ls))"

text \<open>
  \<open>with ThreadPoolExecutor(max_workers=2) as pool\<close>: both calls are handed to the pool,
  then the results are taken in the order of the source, the first one first. An
  exception of the first call is the one raised; both calls have been made by then. The
  trace lists the two calls in the order of the two \<open>pool.submit\<close>; the order in which
  the worker threads reach the node is not modelled.
\<close>

definition pool2 :: "'a io \<Rightarrow> 'b io \<Rightarrow> ('a \<times> 'b) io" where
  "pool2 m1 m2 =
     (\<lambda>t. case m1 t of (r1, t1) \<Rightarrow>
           (case m2 t1 of (r2, t2) \<Rightarrow>
              (case r1 of
                 Inl e \<Rightarrow> (Inl e, t2)
               | Inr x \<Rightarrow> (case r2 of Inl e \<Rightarrow> (Inl e, t2) | Inr y \<Rightarrow> (Inr (x, y), t2)))))"

subsection \<open>The calls on \<open>w3.eth\<close> and on bound contract functions\<close>

definition eth_chain_id :: "node \<Rightarrow> int io" where
  "eth_chain_id w3 = rpc Eth_chainId (node_chain_id w3)"

definition call :: "node \<Rightarrow> contract_call \<Rightarrow> bytes list io" where
  "call w3 f = rpc (Eth_call f) (node_call w3 f)"

definition get_block :: "node \<Rightarrow> string \<Rightarrow> block io" where
  "get_block w3 b = rpc (Eth_getBlock b) (node_get_block w3 b)"

definition get_transaction_count :: "node \<Rightarrow> address \<Rightarrow> string \<Rightarrow> int io" where
  "get_transaction_count w3 a b = rpc (Eth_getTransactionCount a b) (node_get_transaction_count w3 a b)"

definition estimate_gas :: "node \<Rightarrow> contract_call \<Rightarrow> address \<Rightarrow> int io" where
  "estimate_gas w3 f a = rpc (Eth_estimateGas f a) (node_estimate_gas w3 f a)"

definition send_raw_transaction :: "node \<Rightarrow> string \<Rightarrow> hexstr io" where
  "send_raw_transaction w3 raw = rpc (Eth_sendRawTransaction raw) (node_send_raw_transaction w3 raw)"

definition wait_for_transaction_receipt :: "node \<Rightarrow> hexstr \<Rightarrow> receipt io" where
  "wait_for_transaction_receipt w3 h =
     rpc (WaitForTransactionReceipt h) (node_wait_for_transaction_receipt w3 h)"

text \<open>
  \<open>f.build_transaction(params)\<close> with \<open>nonce\<close>, \<open>chainId\<close>, \<open>gas\<close> and the fee fields all
  given: the library has nothing to fill in from the node and assembles the transaction.
\<close>

definition build_transaction :: "contract_call \<Rightarrow> (string \<rightharpoonup> pyval) \<Rightarrow> transaction" where
  "build_transaction f params = \<lparr>tx_to = fst f, tx_data = snd f, tx_fields = params\<rparr>"

text \<open>\<open>Web3.to_wei(n, 'ether')\<close>.\<close>

definition to_wei_ether :: "int \<Rightarrow> int" where
  "to_wei_ether n = n * 10 ^ 18"

subsection \<open>\<open>main\<close>, lines 73 to 160: from the connection to the two built transactions\<close>

record prepared =
  p_sender :: address
  p_chain_id :: int
  p_swap_func :: contract_call
  p_update_func :: contract_call
  p_base_fee :: "int option"
  p_fee_high :: "string \<rightharpoonup> int"
  p_fee_low :: "string \<rightharpoonup> int"
  p_base_nonce :: int
  p_gas_swap :: int
  p_gas_update :: int
  p_tx_update :: transaction
  p_tx_swap :: transaction

definition prepare :: "env \<Rightarrow> prepared io" where
  "prepare env =
     (let w3 = provider env (RPC_URL env) in
      bnd (lift (from_key env (PRIVATE_KEY env))) (\<lambda>sender.
      bnd (eth_chain_id w3) (\<lambda>chain_id.
      bnd (prints [ConnectedToChainID chain_id, SenderAddress sender]) (\<lambda>_.
      let amm_contract = to_checksum_address env PROP_AMM_ADDRESS;
          global_storage_contract = to_checksum_address env GLOBAL_STORAGE_ADDRESS;
          swap_amount_weth = to_wei_ether 1;
          swap_func = (amm_contract, swapXtoY (fromhex (drop 2 PAIR_ID)) swap_amount_weth 0);
          new_concentration = 150;
          new_mult_x = 10 ^ 18;
          new_mult_y = 3000 * 10 ^ 18;
          pair_id_bytes = fromhex (drop 2 PAIR_ID)
      in
      bnd (call w3 (amm_contract, getParameterKeys pair_id_bytes)) (\<lambda>keys.
      bnd (call w3 (amm_contract, encodeParameters new_concentration new_mult_x new_mult_y)) (\<lambda>values.
      let update_func = (global_storage_contract, setBatch keys values) in
      bnd (get_block w3 ''latest'') (\<lambda>latest.
      let base_fee = latest ''baseFeePerGas'';
          fee_high = fst (fee_config base_fee);
          fee_low = snd (fee_config base_fee)
      in
      bnd (get_transaction_count w3 sender ''pending'') (\<lambda>base_nonce.
      bnd (estimate_gas w3 swap_func sender) (\<lambda>gas_swap.
      bnd (estimate_gas w3 update_func sender) (\<lambda>gas_update.
      bnd (prints [BlankLine, EstimatedGas gas_swap gas_update]) (\<lambda>_.
      let tx_update = build_transaction update_func
            ([''from'' \<mapsto> PyStr sender,
              ''nonce'' \<mapsto> PyInt base_nonce,
              ''chainId'' \<mapsto> PyInt chain_id,
              ''gas'' \<mapsto> PyInt (gas_update + 20000)] ++ (map_option PyInt \<circ> fee_low));
          tx_swap = build_transaction swap_func
            ([''from'' \<mapsto> PyStr sender,
              ''nonce'' \<mapsto> PyInt (base_nonce + 1),
              ''chainId'' \<mapsto> PyInt chain_id,
              ''gas'' \<mapsto> PyInt (gas_swap + 20000)] ++ (map_option PyInt \<circ> fee_high))
      in ret \<lparr>p_sender = sender, p_chain_id = chain_id,
               p_swap_func = swap_func, p_update_func = update_func,
               p_base_fee = base_fee, p_fee_high = fee_high, p_fee_low = fee_low,
               p_base_nonce = base_nonce, p_gas_swap = gas_swap, p_gas_update = gas_update,
               p_tx_update = tx_update, p_tx_swap = tx_swap\<rparr>)))))))))))"

subsection \<open>\<open>main\<close>, lines 162 to 187: sign, send both, wait for both\<close>

record raced =
  r_txhash_update :: hexstr
  r_txhash_swap :: hexstr
  r_rcpt_update :: receipt
  r_rcpt_swap :: receipt

definition priority_fee_shown :: "(string \<rightharpoonup> int) \<Rightarrow> int" where
  "priority_fee_shown fee = (case fee ''maxPriorityFeePerGas'' of None \<Rightarrow> 0 | Some v \<Rightarrow> v)"

definition race :: "env \<Rightarrow> prepared \<Rightarrow> raced io" where
  "race env p =
     (let w3 = provider env (RPC_URL env) in
      bnd (lift (sign_transaction env (p_tx_swap p) (PRIVATE_KEY env))) (\<lambda>signed_swap.
      bnd (lift (sign_transaction env (p_tx_update p) (PRIVATE_KEY env))) (\<lambda>signed_update.
      bnd (prints [BlankLine, SendingCompetingTransactions,
                   SwapPriorityFee (priority_fee_shown (p_fee_high p)),
                   UpdatePriorityFee (priority_fee_shown (p_fee_low p))]) (\<lambda>_.
      bnd (pool2 (send_raw_transaction w3 (raw_transaction signed_update))
                 (send_raw_transaction w3 (raw_transaction signed_swap))) (\<lambda>(txhash_update, txhash_swap).
      bnd (prints [SentUpdate txhash_update, BlankLine, SentSwap txhash_swap,
                   BlankLine, WaitingForConfirmations]) (\<lambda>_.
      bnd (pool2 (wait_for_transaction_receipt w3 txhash_update)
                 (wait_for_transaction_receipt w3 txhash_swap)) (\<lambda>(rcpt_update, rcpt_swap).
      ret \<lparr>r_txhash_update = txhash_update, r_txhash_swap = txhash_swap,
            r_rcpt_update = rcpt_update, r_rcpt_swap = rcpt_swap\<rparr>)))))))"

subsection \<open>\<open>main\<close>, lines 190 to 227: the results and the verdict\<close>

definition status_line :: "receipt \<Rightarrow> out_line" where
  "status_line rcpt = (if status rcpt = 1 then Status CheckMark ''Success'' else Status CrossMark ''Failed'')"

definition receipt_lines :: "receipt \<Rightarrow> out_line list" where
  "receipt_lines rcpt =
     [status_line rcpt,
      BlockNumber (blockNumber rcpt),
      BlockHash (blockHash rcpt),
      GasUsed (gasUsed rcpt),
      EffectiveGasPrice (effectiveGasPrice rcpt),
      TotalCost (gasUsed rcpt * effectiveGasPrice rcpt)]"

definition display_results :: "raced \<Rightarrow> verdict io" where
  "display_results r =
     bnd (prints ([BlankLine, Rule, TransactionResults, Rule]
                  @ [BlankLine, SwapTransaction (r_txhash_swap r)] @ receipt_lines (r_rcpt_swap r)
                  @ [BlankLine, UpdateTransaction (r_txhash_update r)] @ receipt_lines (r_rcpt_update r)
                  @ [BlankLine, Rule]
                  @ snd (ordering_verdict (r_rcpt_swap r) (r_rcpt_update r))
                  @ [Rule])) (\<lambda>_.
     ret (fst (ordering_verdict (r_rcpt_swap r) (r_rcpt_update r))))"

subsection \<open>\<open>main\<close>\<close>

definition main :: "env \<Rightarrow> (prepared \<times> raced \<times> verdict) io" where
  "main env =
     bnd (prepare env) (\<lambda>p.
     bnd (race env p) (\<lambda>r.
     bnd (display_results r) (\<lambda>v.
     ret (p, r, v))))"

subsection \<open>Observations used in the statements\<close>

text \<open>The requests of a trace that ask for the sender's transaction count.\<close>

fun is_get_transaction_count :: "event \<Rightarrow> bool" where
  "is_get_transaction_count (Request (Eth_getTransactionCount a b)) = True"
| "is_get_transaction_count e = False"

text \<open>The requests of a trace that ask for a gas estimate.\<close>

fun is_estimate_gas :: "event \<Rightarrow> bool" where
  "is_estimate_gas (Request (Eth_estimateGas f a)) = True"
| "is_estimate_gas e = False"

text \<open>The fee part of a transaction's fields: the three keys a fee dictionary can hold.\<close>

definition fee_fields :: "transaction \<Rightarrow> (string \<rightharpoonup> pyval)" where
  "fee_fields tx = tx_fields tx |` {''maxPriorityFeePerGas'', ''maxFeePerGas'', ''gasPrice''}"

text \<open>The third argument of a \<open>swapXtoY\<close> call, named as in the ABI.\<close>

fun minAmountYOut :: "contract_function \<Rightarrow> int option" where
  "minAmountYOut (swapXtoY pairId amountXIn m) = Some m"
| "minAmountYOut f = None"

subsection \<open>A concrete run\<close>

text \<open>
  One environment on which \<open>main\<close> runs to the end: base fee 1 gwei, pending count 42,
  both transactions mined in block 757, the swap at index 0 and the update at index 1.
  \<open>scenario_prepared\<close> and \<open>scenario_raced\<close> are the values \<open>main\<close> computes there.
\<close>

definition scenario_receipt :: "hexstr \<Rightarrow> receipt" where
  "scenario_receipt h =
     \<lparr>status = 1, blockNumber = 757, blockHash = ''0xb757'',
      transactionIndex = (if h = ''0xswap'' then 0 else 1),
      gasUsed = 90000, effectiveGasPrice = 1000000000\<rparr>"

definition scenario_node :: node where
  "scenario_node =
     \<lparr>node_chain_id = Inr 412346,
      node_call = (\<lambda>f. Inr [fromhex ''01'']),
      node_get_block = (\<lambda>b. Inr [''baseFeePerGas'' \<mapsto> 1000000000]),
      node_get_transaction_count = (\<lambda>a b. Inr 42),
      node_estimate_gas = (\<lambda>f a. Inr
         (case snd f of swapXtoY x y z \<Rightarrow> 150000 | getParameterKeys x \<Rightarrow> 0
          | encodeParameters x y z \<Rightarrow> 0 | setBatch ks vs \<Rightarrow> 60000)),
      node_send_raw_transaction = (\<lambda>raw. Inr (''0x'' @ raw)),
      node_wait_for_transaction_receipt = (\<lambda>h. Inr (scenario_receipt h))\<rparr>"

definition scenario_env :: env where
  "scenario_env =
     \<lparr>getenv = [''PRIVATE_KEY'' \<mapsto> ''0xkey''],
      provider = (\<lambda>url. scenario_node),
      from_key = (\<lambda>k. Inr ''0xsender''),
      sign_transaction = (\<lambda>tx k. Inr \<lparr>raw_transaction =
         (case tx_data tx of swapXtoY a b c \<Rightarrow> ''swap'' | getParameterKeys a \<Rightarrow> ''other''
          | encodeParameters a b c \<Rightarrow> ''other'' | setBatch ks vs \<Rightarrow> ''update'')\<rparr>),
      to_checksum_address = (\<lambda>a. a)\<rparr>"

definition scenario_prepared :: prepared where
  "scenario_prepared =
     \<lparr>p_sender = ''0xsender'', p_chain_id = 412346,
      p_swap_func = (PROP_AMM_ADDRESS, swapXtoY (fromhex (drop 2 PAIR_ID)) 1000000000000000000 0),
      p_update_func = (GLOBAL_STORAGE_ADDRESS, setBatch [fromhex ''01''] [fromhex ''01'']),
      p_base_fee = Some 1000000000,
      p_fee_high = [''maxPriorityFeePerGas'' \<mapsto> 10000000000, ''maxFeePerGas'' \<mapsto> 12000000000],
      p_fee_low = [''maxPriorityFeePerGas'' \<mapsto> 1000000000, ''maxFeePerGas'' \<mapsto> 3000000000],
      p_base_nonce = 42, p_gas_swap = 150000, p_gas_update = 60000,
      p_tx_update =
        \<lparr>tx_to = GLOBAL_STORAGE_ADDRESS, tx_data = setBatch [fromhex ''01''] [fromhex ''01''],
         tx_fields = [''from'' \<mapsto> PyStr ''0xsender'', ''nonce'' \<mapsto> PyInt 42,
                      ''chainId'' \<mapsto> PyInt 412346, ''gas'' \<mapsto> PyInt 80000,
                      ''maxPriorityFeePerGas'' \<mapsto> PyInt 1000000000,
                      ''maxFeePerGas'' \<mapsto> PyInt 3000000000]\<rparr>,
      p_tx_swap =
        \<lparr>tx_to = PROP_AMM_ADDRESS,
         tx_data = swapXtoY (fromhex (drop 2 PAIR_ID)) 1000000000000000000 0,
         tx_fields = [''from'' \<mapsto> PyStr ''0xsender'', ''nonce'' \<mapsto> PyInt 43,
                      ''chainId'' \<mapsto> PyInt 412346, ''gas'' \<mapsto> PyInt 170000,
                      ''maxPriorityFeePerGas'' \<mapsto> PyInt 10000000000,
                      ''maxFeePerGas'' \<mapsto> PyInt 12000000000]\<rparr>\<rparr>"

definition scenario_raced :: raced where
  "scenario_raced =
     \<lparr>r_txhash_update = ''0xupdate'', r_txhash_swap = ''0xswap'',
      r_rcpt_update = scenario_receipt ''0xupdate'', r_rcpt_swap = scenario_receipt ''0xswap''\<rparr>"

section \<open>Properties\<close>

subsection \<open>What a run of \<open>main\<close> that reaches the built transactions has done\<close>

lemmas io_defs = bnd_def ret_def lift_def rpc_def prints_def pool2_def
  eth_chain_id_def call_def get_block_def get_transaction_count_def estimate_gas_def
  send_raw_transaction_def wait_for_transaction_receipt_def

lemma prepare_Inr:
  assumes "fst (prepare env t) = Inr p"
  shows "from_key env (PRIVATE_KEY env) = Inr (p_sender p)"
    and "node_chain_id (provider env (RPC_URL env)) = Inr (p_chain_id p)"
    and "p_swap_func p = (to_checksum_address env PROP_AMM_ADDRESS,
                          swapXtoY (fromhex (drop 2 PAIR_ID)) (to_wei_ether 1) 0)"
    and "\<exists>keys values.
           node_call (provider env (RPC_URL env))
             (to_checksum_address env PROP_AMM_ADDRESS, getParameterKeys (fromhex (drop 2 PAIR_ID))) = Inr keys
         \<and> node_call (provider env (RPC_URL env))
             (to_checksum_address env PROP_AMM_ADDRESS, encodeParameters 150 (10 ^ 18) (3000 * 10 ^ 18)) = Inr values
         \<and> p_update_func p = (to_checksum_address env GLOBAL_STORAGE_ADDRESS, setBatch keys values)"
    and "\<exists>latest. node_get_block (provider env (RPC_URL env)) ''latest'' = Inr latest
         \<and> p_base_fee p = latest ''baseFeePerGas''"
    and "p_fee_high p = fst (fee_config (p_base_fee p))"
    and "p_fee_low p = snd (fee_config (p_base_fee p))"
    and "node_get_transaction_count (provider env (RPC_URL env)) (p_sender p) ''pending'' = Inr (p_base_nonce p)"
    and "node_estimate_gas (provider env (RPC_URL env)) (p_swap_func p) (p_sender p) = Inr (p_gas_swap p)"
    and "node_estimate_gas (provider env (RPC_URL env)) (p_update_func p) (p_sender p) = Inr (p_gas_update p)"
    and "p_tx_update p = build_transaction (p_update_func p)
           ([''from'' \<mapsto> PyStr (p_sender p), ''nonce'' \<mapsto> PyInt (p_base_nonce p),
             ''chainId'' \<mapsto> PyInt (p_chain_id p), ''gas'' \<mapsto> PyInt (p_gas_update p + 20000)]
            ++ (map_option PyInt \<circ> p_fee_low p))"
    and "p_tx_swap p = build_transaction (p_swap_func p)
           ([''from'' \<mapsto> PyStr (p_sender p), ''nonce'' \<mapsto> PyInt (p_base_nonce p + 1),
             ''chainId'' \<mapsto> PyInt (p_chain_id p), ''gas'' \<mapsto> PyInt (p_gas_swap p + 20000)]
            ++ (map_option PyInt \<circ> p_fee_high p))"
    and "snd (prepare env t) = t @ [Request Eth_chainId,
                   Print (ConnectedToChainID (p_chain_id p)), Print (SenderAddress (p_sender p)),
                   Request (Eth_call (to_checksum_address env PROP_AMM_ADDRESS,
                                      getParameterKeys (fromhex (drop 2 PAIR_ID)))),
                   Request (Eth_call (to_checksum_address env PROP_AMM_ADDRESS,
                                      encodeParameters 150 (10 ^ 18) (3000 * 10 ^ 18))),
                   Request (Eth_getBlock ''latest''),
                   Request (Eth_getTransactionCount (p_sender p) ''pending''),
                   Request (Eth_estimateGas (p_swap_func p) (p_sender p)),
                   Request (Eth_estimateGas (p_update_func p) (p_sender p)),
                   Print BlankLine, Print (EstimatedGas (p_gas_swap p) (p_gas_update p))]"
  using assms unfolding prepare_def Let_def io_defs
  by (auto split: sum.splits prod.splits)


lemma prepare_count:
  "length (filter is_get_transaction_count (snd (prepare env []))) \<le> 1"
  unfolding prepare_def Let_def io_defs
  by (auto split: sum.splits prod.splits)

lemma race_trace:
  "\<exists>xs. snd (race env p t) = t @ xs \<and> filter is_get_transaction_count xs = []
        \<and> filter is_estimate_gas xs = []"
  unfolding race_def Let_def io_defs
  by (auto split: sum.splits prod.splits)

lemma display_results_trace:
  "\<exists>xs. snd (display_results r t) = t @ xs \<and> filter is_get_transaction_count xs = []
        \<and> filter is_estimate_gas xs = []"
  unfolding display_results_def Let_def io_defs
  by (auto split: sum.splits prod.splits)

lemma main_Inl:
  assumes "prepare env t = (Inl e, t')"
  shows "main env t = (Inl e, t')"
  using assms by (simp add: main_def bnd_def)

lemma main_trace:
  assumes "prepare env t = (Inr p, t')"
  shows "\<exists>xs. snd (main env t) = t' @ xs \<and> filter is_get_transaction_count xs = []
        \<and> filter is_estimate_gas xs = []"
proof -
  obtain xs where xs: "snd (race env p t') = t' @ xs"
    "filter is_get_transaction_count xs = []" "filter is_estimate_gas xs = []"
    using race_trace [of env p t'] by blast
  obtain res where res: "race env p t' = (res, t' @ xs)"
    using xs(1) by (cases "race env p t'") simp
  show ?thesis
  proof (cases res)
    case (Inl e)
    with assms res have "main env t = (Inl e, t' @ xs)"
      by (simp add: main_def bnd_def)
    with xs show ?thesis by simp
  next
    case (Inr r)
    obtain ys where ys: "snd (display_results r (t' @ xs)) = (t' @ xs) @ ys"
      "filter is_get_transaction_count ys = []" "filter is_estimate_gas ys = []"
      using display_results_trace [of r "t' @ xs"] by blast
    obtain v where v: "display_results r (t' @ xs) = (v, (t' @ xs) @ ys)"
      using ys(1) by (cases "display_results r (t' @ xs)") simp
    from assms res Inr v have "snd (main env t) = t' @ (xs @ ys)"
      by (cases v) (simp_all add: main_def bnd_def ret_def)
    with xs ys show ?thesis by simp
  qed
qed

lemma main_count: "length (filter is_get_transaction_count (snd (main env []))) \<le> 1"
proof (cases "prepare env []")
  case (Pair res t')
  show ?thesis
  proof (cases res)
    case (Inl e)
    with Pair have "snd (main env []) = snd (prepare env [])"
      by (simp add: main_Inl)
    then show ?thesis using prepare_count [of env] by simp
  next
    case (Inr p)
    with Pair obtain xs where "snd (main env []) = t' @ xs" "filter is_get_transaction_count xs = []"
      using main_trace [of env "[]" p t'] by blast
    moreover have "t' = snd (prepare env [])" using Pair by simp
    ultimately show ?thesis using prepare_count [of env] by simp
  qed
qed

subsection \<open>The fields of a built transaction\<close>

lemma dom_fee_config:
  "dom (fst (fee_config b)) \<subseteq> {''maxPriorityFeePerGas'', ''maxFeePerGas'', ''gasPrice''}"
  "dom (snd (fee_config b)) \<subseteq> {''maxPriorityFeePerGas'', ''maxFeePerGas'', ''gasPrice''}"
  by (auto simp: fee_config_def split: option.splits if_splits)

lemma fee_fields_build:
  assumes "dom fee \<subseteq> {''maxPriorityFeePerGas'', ''maxFeePerGas'', ''gasPrice''}"
  shows "fee_fields (build_transaction f
           ([''from'' \<mapsto> a, ''nonce'' \<mapsto> b, ''chainId'' \<mapsto> c, ''gas'' \<mapsto> d]
            ++ (map_option PyInt \<circ> fee))) = map_option PyInt \<circ> fee"
proof (rule ext)
  fix k
  show "fee_fields (build_transaction f
           ([''from'' \<mapsto> a, ''nonce'' \<mapsto> b, ''chainId'' \<mapsto> c, ''gas'' \<mapsto> d]
            ++ (map_option PyInt \<circ> fee))) k = (map_option PyInt \<circ> fee) k"
  proof (cases "fee k")
    case None
    then show ?thesis
      by (simp add: fee_fields_def build_transaction_def restrict_map_def map_add_def)
  next
    case (Some v)
    then have "k \<in> {''maxPriorityFeePerGas'', ''maxFeePerGas'', ''gasPrice''}"
      using assms by blast
    with Some show ?thesis
      by (simp add: fee_fields_def build_transaction_def restrict_map_def map_add_def)
  qed
qed

lemma other_fields_build:
  assumes "dom fee \<subseteq> {''maxPriorityFeePerGas'', ''maxFeePerGas'', ''gasPrice''}"
  shows "tx_fields (build_transaction f
           ([''from'' \<mapsto> a, ''nonce'' \<mapsto> b, ''chainId'' \<mapsto> c, ''gas'' \<mapsto> d]
            ++ (map_option PyInt \<circ> fee))) ''nonce'' = Some b"
    and "tx_fields (build_transaction f
           ([''from'' \<mapsto> a, ''nonce'' \<mapsto> b, ''chainId'' \<mapsto> c, ''gas'' \<mapsto> d]
            ++ (map_option PyInt \<circ> fee))) ''gas'' = Some d"
proof -
  have "fee ''nonce'' = None" "fee ''gas'' = None"
    using assms by (auto simp: domIff subset_iff)
  then show "tx_fields (build_transaction f
           ([''from'' \<mapsto> a, ''nonce'' \<mapsto> b, ''chainId'' \<mapsto> c, ''gas'' \<mapsto> d]
            ++ (map_option PyInt \<circ> fee))) ''nonce'' = Some b"
    and "tx_fields (build_transaction f
           ([''from'' \<mapsto> a, ''nonce'' \<mapsto> b, ''chainId'' \<mapsto> c, ''gas'' \<mapsto> d]
            ++ (map_option PyInt \<circ> fee))) ''gas'' = Some d"
    by (simp_all add: build_transaction_def map_add_def)
qed

subsection \<open>The concrete run\<close>

lemma scenario_prepare: "fst (prepare scenario_env []) = Inr scenario_prepared"
  unfolding prepare_def Let_def io_defs scenario_env_def scenario_node_def scenario_prepared_def
    RPC_URL_def PRIVATE_KEY_def build_transaction_def to_wei_ether_def fee_config_def gwei_def
  by simp

lemma scenario_race: "fst (race scenario_env scenario_prepared t) = Inr scenario_raced"
  unfolding race_def Let_def io_defs scenario_env_def scenario_node_def scenario_prepared_def
    scenario_raced_def RPC_URL_def PRIVATE_KEY_def
  by simp

lemma scenario_verdict: "fst (display_results scenario_raced t) = Inr SameBlockBFirst"
  unfolding display_results_def io_defs scenario_raced_def ordering_verdict_def scenario_receipt_def
  by simp

lemma scenario_main:
  "fst (main scenario_env []) = Inr (scenario_prepared, scenario_raced, SameBlockBFirst)"
proof -
  obtain t1 where 1: "prepare scenario_env [] = (Inr scenario_prepared, t1)"
    using scenario_prepare by (cases "prepare scenario_env []") simp
  obtain t2 where 2: "race scenario_env scenario_prepared t1 = (Inr scenario_raced, t2)"
    using scenario_race [of t1] by (cases "race scenario_env scenario_prepared t1") simp
  obtain t3 where 3: "display_results scenario_raced t2 = (Inr SameBlockBFirst, t3)"
    using scenario_verdict [of t2] by (cases "display_results scenario_raced t2") simp
  show ?thesis using 1 2 3 by (simp add: main_def bnd_def ret_def)
qed


section \<open>The claims\<close>

subsection \<open>Fee tiers\<close>

text \<open>
  Claim C1. For every base fee \<open>b\<close> found in the latest block, the high tier is
  the dictionary with \<open>maxPriorityFeePerGas\<close> 10 gwei and \<open>maxFeePerGas\<close>
  \<open>2 * b\<close> plus 10 gwei, and the low tier the one with 1 gwei and \<open>2 * b\<close> plus
  1 gwei; each tier uses its own tip and holds no \<open>gasPrice\<close>. When the block has no base
  fee the tiers are the legacy dictionaries with \<open>gasPrice\<close> 100 gwei (high) and 20 gwei
  (low) and nothing else, whatever else the block says.
\<close>

theorem fee_tier_calculator:
  "fst (fee_config (Some b)) =
     [''maxPriorityFeePerGas'' \<mapsto> 10000000000, ''maxFeePerGas'' \<mapsto> 2 * b + 10000000000]
   \<and> snd (fee_config (Some b)) =
     [''maxPriorityFeePerGas'' \<mapsto> 1000000000, ''maxFeePerGas'' \<mapsto> 2 * b + 1000000000]
   \<and> fst (fee_config None) = [''gasPrice'' \<mapsto> 100000000000]
   \<and> snd (fee_config None) = [''gasPrice'' \<mapsto> 20000000000]"
  by (simp add: fee_config_def gwei_def mult.commute)

text \<open>
  The tiers at base fee 7, and the legacy tiers.
\<close>

theorem fee_tier_calculator_witness:
  "fst (fee_config (Some 7)) ''maxFeePerGas'' = Some 10000000014
   \<and> snd (fee_config (Some 7)) ''maxFeePerGas'' = Some 1000000014
   \<and> fst (fee_config (Some 7)) ''gasPrice'' = None
   \<and> fst (fee_config None) ''gasPrice'' = Some 100000000000
   \<and> snd (fee_config None) ''gasPrice'' = Some 20000000000
   \<and> fst (fee_config None) ''maxFeePerGas'' = None"
  using fee_tier_calculator [of 7] by simp

subsection \<open>The ordering verdict\<close>

text \<open>
  Claim C2. The verdict is a function of the two receipts with three outcomes. When the
  receipts share a block number and the update (transaction A) has the smaller transaction
  index, it is \<open>SameBlockAFirst\<close>; when they share a block number and the swap
  (transaction B) has the smaller index, it is \<open>SameBlockBFirst\<close>; when the block numbers
  differ it is \<open>DifferentBlocks\<close> whatever the indices are, and the lines printed are the
  two block numbers, with no line about the order.
\<close>

theorem ordering_verdict_outcomes:
  "(blockNumber rcpt_update = blockNumber rcpt_swap
      \<and> transactionIndex rcpt_update < transactionIndex rcpt_swap
      \<longrightarrow> fst (ordering_verdict rcpt_swap rcpt_update) = SameBlockAFirst)
   \<and> (blockNumber rcpt_update = blockNumber rcpt_swap
      \<and> transactionIndex rcpt_swap < transactionIndex rcpt_update
      \<longrightarrow> fst (ordering_verdict rcpt_swap rcpt_update) = SameBlockBFirst)
   \<and> (blockNumber rcpt_update \<noteq> blockNumber rcpt_swap
      \<longrightarrow> ordering_verdict rcpt_swap rcpt_update =
            (DifferentBlocks,
             [DifferentBlocksLine, SwapBlock (blockNumber rcpt_swap),
              UpdateBlock (blockNumber rcpt_update)]))"
  by (auto simp: ordering_verdict_def Let_def)

text \<open>
  The three cases at the receipts of the specification: indices 2 and 5 in block 100,
  indices 5 and 2 in block 100, and blocks 100 and 101.
\<close>

theorem ordering_verdict_outcomes_witness:
  "fst (ordering_verdict
          \<lparr>status = 1, blockNumber = 100, blockHash = ''0xaa'', transactionIndex = 5,
           gasUsed = 90000, effectiveGasPrice = 2000000000\<rparr>
          \<lparr>status = 1, blockNumber = 100, blockHash = ''0xaa'', transactionIndex = 2,
           gasUsed = 50000, effectiveGasPrice = 2000000000\<rparr>) = SameBlockAFirst
   \<and> fst (ordering_verdict
          \<lparr>status = 1, blockNumber = 100, blockHash = ''0xaa'', transactionIndex = 2,
           gasUsed = 90000, effectiveGasPrice = 2000000000\<rparr>
          \<lparr>status = 1, blockNumber = 100, blockHash = ''0xaa'', transactionIndex = 5,
           gasUsed = 50000, effectiveGasPrice = 2000000000\<rparr>) = SameBlockBFirst
   \<and> ordering_verdict
          \<lparr>status = 1, blockNumber = 101, blockHash = ''0xbb'', transactionIndex = 2,
           gasUsed = 90000, effectiveGasPrice = 2000000000\<rparr>
          \<lparr>status = 1, blockNumber = 100, blockHash = ''0xaa'', transactionIndex = 5,
           gasUsed = 50000, effectiveGasPrice = 2000000000\<rparr>
       = (DifferentBlocks, [DifferentBlocksLine, SwapBlock 101, UpdateBlock 100])"
  using
    ordering_verdict_outcomes
      [of "\<lparr>status = 1, blockNumber = 100, blockHash = ''0xaa'', transactionIndex = 2,
            gasUsed = 50000, effectiveGasPrice = 2000000000\<rparr>"
          "\<lparr>status = 1, blockNumber = 100, blockHash = ''0xaa'', transactionIndex = 5,
            gasUsed = 90000, effectiveGasPrice = 2000000000\<rparr>"]
    ordering_verdict_outcomes
      [of "\<lparr>status = 1, blockNumber = 100, blockHash = ''0xaa'', transactionIndex = 5,
            gasUsed = 50000, effectiveGasPrice = 2000000000\<rparr>"
          "\<lparr>status = 1, blockNumber = 100, blockHash = ''0xaa'', transactionIndex = 2,
            gasUsed = 90000, effectiveGasPrice = 2000000000\<rparr>"]
    ordering_verdict_outcomes
      [of "\<lparr>status = 1, blockNumber = 100, blockHash = ''0xaa'', transactionIndex = 5,
            gasUsed = 50000, effectiveGasPrice = 2000000000\<rparr>"
          "\<lparr>status = 1, blockNumber = 101, blockHash = ''0xbb'', transactionIndex = 2,
            gasUsed = 90000, effectiveGasPrice = 2000000000\<rparr>"]
  by simp

text \<open>
  Claim C3, as the code has it. For every pair of receipts that share a block number and
  have equal transaction indices, the condition \<open>tx_idx_swap < tx_idx_update\<close> is false and
  the \<open>else\<close> branch is taken: the verdict is \<open>SameBlockAFirst\<close>, printed as the ordinary
  "update executed before swap" line with the check mark and the two indices. No warning
  and no anomaly is reported.
\<close>

theorem equal_indices_update_first:
  assumes "blockNumber rcpt_swap = blockNumber rcpt_update"
    and "transactionIndex rcpt_swap = transactionIndex rcpt_update"
  shows "ordering_verdict rcpt_swap rcpt_update =
           (SameBlockAFirst,
            [SameBlock, UpdateBeforeSwap CheckMark,
             TransactionIndices (transactionIndex rcpt_swap) (transactionIndex rcpt_update)])"
  using assms by (simp add: ordering_verdict_def Let_def)

text \<open>
  Two receipts in block 757, both at index 3.
\<close>

theorem equal_indices_update_first_witness:
  "ordering_verdict
          \<lparr>status = 1, blockNumber = 757, blockHash = ''0xb757'', transactionIndex = 3,
           gasUsed = 90000, effectiveGasPrice = 2000000000\<rparr>
          \<lparr>status = 1, blockNumber = 757, blockHash = ''0xb757'', transactionIndex = 3,
           gasUsed = 50000, effectiveGasPrice = 2000000000\<rparr>
     = (SameBlockAFirst, [SameBlock, UpdateBeforeSwap CheckMark, TransactionIndices 3 3])"
  using equal_indices_update_first
      [of "\<lparr>status = 1, blockNumber = 757, blockHash = ''0xb757'', transactionIndex = 3,
            gasUsed = 90000, effectiveGasPrice = 2000000000\<rparr>"
          "\<lparr>status = 1, blockNumber = 757, blockHash = ''0xb757'', transactionIndex = 3,
            gasUsed = 50000, effectiveGasPrice = 2000000000\<rparr>"]
  by simp

text \<open>
  The same two receipts show that equal indices are not classified as
  \<open>SameBlockBFirst\<close>.
\<close>

theorem equal_indices_counterexample:
  "fst (ordering_verdict
          \<lparr>status = 1, blockNumber = 757, blockHash = ''0xb757'', transactionIndex = 3,
           gasUsed = 90000, effectiveGasPrice = 2000000000\<rparr>
          \<lparr>status = 1, blockNumber = 757, blockHash = ''0xb757'', transactionIndex = 3,
           gasUsed = 50000, effectiveGasPrice = 2000000000\<rparr>) \<noteq> SameBlockBFirst"
  by (simp add: ordering_verdict_def Let_def)

text \<open>
  Claim C9. The verdict reads only \<open>blockNumber\<close> and \<open>transactionIndex\<close>: two pairs
  of receipts that agree on these two fields, and differ in any way in \<open>status\<close> (or in any
  other field), get the same verdict and the same verdict lines, and \<open>main\<close> returns the
  same verdict for them. The status of each receipt is shown in the output, in its
  status line.
\<close>

theorem verdict_independent_of_status:
  assumes "blockNumber (r_rcpt_swap r') = blockNumber (r_rcpt_swap r)"
    and "transactionIndex (r_rcpt_swap r') = transactionIndex (r_rcpt_swap r)"
    and "blockNumber (r_rcpt_update r') = blockNumber (r_rcpt_update r)"
    and "transactionIndex (r_rcpt_update r') = transactionIndex (r_rcpt_update r)"
  shows "ordering_verdict (r_rcpt_swap r') (r_rcpt_update r')
           = ordering_verdict (r_rcpt_swap r) (r_rcpt_update r)
       \<and> fst (display_results r' t') = fst (display_results r t)
       \<and> fst (display_results r t) = Inr (fst (ordering_verdict (r_rcpt_swap r) (r_rcpt_update r)))
       \<and> Print (status_line (r_rcpt_swap r)) \<in> set (snd (display_results r t))
       \<and> Print (status_line (r_rcpt_update r)) \<in> set (snd (display_results r t))"
proof -
  have v: "ordering_verdict (r_rcpt_swap r') (r_rcpt_update r')
           = ordering_verdict (r_rcpt_swap r) (r_rcpt_update r)"
    using assms by (simp add: ordering_verdict_def)
  have d: "fst (display_results r t) = Inr (fst (ordering_verdict (r_rcpt_swap r) (r_rcpt_update r)))"
    for r t
    by (simp add: display_results_def bnd_def prints_def ret_def)
  have s: "Print (status_line (r_rcpt_swap r)) \<in> set (snd (display_results r t))"
    "Print (status_line (r_rcpt_update r)) \<in> set (snd (display_results r t))"
    by (simp_all add: display_results_def bnd_def prints_def ret_def receipt_lines_def)
  show ?thesis using v d s by simp
qed

text \<open>
  The receipts of the concrete run, once with status 1 and once with status 0: the status
  lines differ, the verdict does not.
\<close>

theorem verdict_independent_of_status_witness:
  "ordering_verdict (scenario_receipt ''0xswap'') (scenario_receipt ''0xupdate'')
     = ordering_verdict ((scenario_receipt ''0xswap'')\<lparr>status := 0\<rparr>)
                        ((scenario_receipt ''0xupdate'')\<lparr>status := 0\<rparr>)
   \<and> status_line ((scenario_receipt ''0xswap'')\<lparr>status := 0\<rparr>) = Status CrossMark ''Failed''
   \<and> status_line (scenario_receipt ''0xswap'') = Status CheckMark ''Success''
   \<and> fst (display_results scenario_raced []) = Inr SameBlockBFirst
   \<and> fst (display_results
        (scenario_raced\<lparr>r_rcpt_update := (scenario_receipt ''0xupdate'')\<lparr>status := 0\<rparr>,
                        r_rcpt_swap := (scenario_receipt ''0xswap'')\<lparr>status := 0\<rparr>\<rparr>) [])
       = Inr SameBlockBFirst"
  using verdict_independent_of_status
    [of "scenario_raced\<lparr>r_rcpt_update := (scenario_receipt ''0xupdate'')\<lparr>status := 0\<rparr>,
                        r_rcpt_swap := (scenario_receipt ''0xswap'')\<lparr>status := 0\<rparr>\<rparr>"
        scenario_raced "[]" "[]"]
    scenario_verdict [of "[]"]
  by (simp add: scenario_raced_def scenario_receipt_def status_line_def)

subsection \<open>The two built transactions\<close>

text \<open>
  Claim C4. In every run that builds the two transactions, the update
  (\<open>GlobalStorage.setBatch\<close>) carries the nonce \<open>base_nonce\<close> and, as its fee fields, exactly
  the low tier; the swap (\<open>PropAMM.swapXtoY\<close>) carries \<open>base_nonce + 1\<close> and exactly the
  high tier. The update's nonce is the lower one. The statement holds for every
  environment, so no run pairs them otherwise.
\<close>

theorem nonce_fee_pairing:
  assumes "fst (prepare env t) = Inr p"
  shows "tx_to (p_tx_update p) = to_checksum_address env GLOBAL_STORAGE_ADDRESS
       \<and> (\<exists>keys values. tx_data (p_tx_update p) = setBatch keys values)
       \<and> tx_fields (p_tx_update p) ''nonce'' = Some (PyInt (p_base_nonce p))
       \<and> fee_fields (p_tx_update p) = map_option PyInt \<circ> snd (fee_config (p_base_fee p))
       \<and> tx_to (p_tx_swap p) = to_checksum_address env PROP_AMM_ADDRESS
       \<and> (\<exists>pairId amountXIn m. tx_data (p_tx_swap p) = swapXtoY pairId amountXIn m)
       \<and> tx_fields (p_tx_swap p) ''nonce'' = Some (PyInt (p_base_nonce p + 1))
       \<and> fee_fields (p_tx_swap p) = map_option PyInt \<circ> fst (fee_config (p_base_fee p))
       \<and> p_base_nonce p < p_base_nonce p + 1"
proof -
  note facts = prepare_Inr [OF assms]
  obtain keys vals where upd:
    "p_update_func p = (to_checksum_address env GLOBAL_STORAGE_ADDRESS, setBatch keys vals)"
    using facts(4) by blast
  have "tx_to (p_tx_update p) = to_checksum_address env GLOBAL_STORAGE_ADDRESS"
    and "tx_data (p_tx_update p) = setBatch keys vals"
    using facts(11) upd by (simp_all add: build_transaction_def)
  moreover have "tx_to (p_tx_swap p) = to_checksum_address env PROP_AMM_ADDRESS"
    and "tx_data (p_tx_swap p) = swapXtoY (fromhex (drop 2 PAIR_ID)) (to_wei_ether 1) 0"
    using facts(12) facts(3) by (simp_all add: build_transaction_def)
  moreover have "tx_fields (p_tx_update p) ''nonce'' = Some (PyInt (p_base_nonce p))"
    using facts(11) facts(7) other_fields_build(1) [OF dom_fee_config(2)] by simp
  moreover have "tx_fields (p_tx_swap p) ''nonce'' = Some (PyInt (p_base_nonce p + 1))"
    using facts(12) facts(6) other_fields_build(1) [OF dom_fee_config(1)] by simp
  moreover have "fee_fields (p_tx_update p) = map_option PyInt \<circ> snd (fee_config (p_base_fee p))"
    using facts(11) facts(7) fee_fields_build [OF dom_fee_config(2)] by simp
  moreover have "fee_fields (p_tx_swap p) = map_option PyInt \<circ> fst (fee_config (p_base_fee p))"
    using facts(12) facts(6) fee_fields_build [OF dom_fee_config(1)] by simp
  ultimately show ?thesis by simp
qed

text \<open>
  The concrete run: nonces 42 and 43, tips 1 gwei and 10 gwei.
\<close>

theorem nonce_fee_pairing_witness:
  "fst (prepare scenario_env []) = Inr scenario_prepared
   \<and> tx_to (p_tx_update scenario_prepared) = GLOBAL_STORAGE_ADDRESS
   \<and> tx_fields (p_tx_update scenario_prepared) ''nonce'' = Some (PyInt 42)
   \<and> fee_fields (p_tx_update scenario_prepared) ''maxPriorityFeePerGas'' = Some (PyInt 1000000000)
   \<and> fee_fields (p_tx_update scenario_prepared) ''maxFeePerGas'' = Some (PyInt 3000000000)
   \<and> tx_to (p_tx_swap scenario_prepared) = PROP_AMM_ADDRESS
   \<and> tx_fields (p_tx_swap scenario_prepared) ''nonce'' = Some (PyInt 43)
   \<and> fee_fields (p_tx_swap scenario_prepared) ''maxPriorityFeePerGas'' = Some (PyInt 10000000000)
   \<and> fee_fields (p_tx_swap scenario_prepared) ''maxFeePerGas'' = Some (PyInt 12000000000)"
  using nonce_fee_pairing [of scenario_env "[]" scenario_prepared, OF scenario_prepare]
    scenario_prepare
  by (simp add: scenario_prepared_def scenario_env_def fee_config_def gwei_def)

text \<open>
  Claim C5. No run of \<open>main\<close> asks for the sender's transaction count more than once.
  A run that builds the two transactions asks exactly once, for the count including
  pending transactions, and with the answer \<open>n\<close> the update gets nonce \<open>n\<close> and the swap
  gets nonce \<open>n + 1\<close>.
\<close>

theorem nonce_sequencer:
  "length (filter is_get_transaction_count (snd (main env []))) \<le> 1
   \<and> (fst (prepare env []) = Inr p \<longrightarrow>
        filter is_get_transaction_count (snd (main env []))
          = [Request (Eth_getTransactionCount (p_sender p) ''pending'')]
      \<and> node_get_transaction_count (provider env (RPC_URL env)) (p_sender p) ''pending''
          = Inr (p_base_nonce p)
      \<and> tx_fields (p_tx_update p) ''nonce'' = Some (PyInt (p_base_nonce p))
      \<and> tx_fields (p_tx_swap p) ''nonce'' = Some (PyInt (p_base_nonce p + 1)))"
proof (intro conjI impI)
  show "length (filter is_get_transaction_count (snd (main env []))) \<le> 1"
    by (rule main_count)
next
  assume run: "fst (prepare env []) = Inr p"
  note facts = prepare_Inr [OF run]
  have pr: "prepare env [] = (Inr p, snd (prepare env []))"
    using run by (cases "prepare env []") simp
  obtain xs where xs: "snd (main env []) = snd (prepare env []) @ xs"
    "filter is_get_transaction_count xs = []"
    using main_trace [OF pr] by blast
  show "filter is_get_transaction_count (snd (main env []))
          = [Request (Eth_getTransactionCount (p_sender p) ''pending'')]"
    using xs facts(13) by simp
  show "node_get_transaction_count (provider env (RPC_URL env)) (p_sender p) ''pending''
          = Inr (p_base_nonce p)"
    by (rule facts(8))
  show "tx_fields (p_tx_update p) ''nonce'' = Some (PyInt (p_base_nonce p))"
    using facts(11) facts(7) other_fields_build(1) [OF dom_fee_config(2)] by simp
  show "tx_fields (p_tx_swap p) ''nonce'' = Some (PyInt (p_base_nonce p + 1))"
    using facts(12) facts(6) other_fields_build(1) [OF dom_fee_config(1)] by simp
qed

text \<open>
  The concrete run: one query, answered 42; nonces 42 and 43.
\<close>

theorem nonce_sequencer_witness:
  "fst (prepare scenario_env []) = Inr scenario_prepared
   \<and> filter is_get_transaction_count (snd (main scenario_env []))
       = [Request (Eth_getTransactionCount ''0xsender'' ''pending'')]
   \<and> node_get_transaction_count (provider scenario_env (RPC_URL scenario_env)) ''0xsender'' ''pending''
       = Inr 42
   \<and> tx_fields (p_tx_update scenario_prepared) ''nonce'' = Some (PyInt 42)
   \<and> tx_fields (p_tx_swap scenario_prepared) ''nonce'' = Some (PyInt 43)"
  using nonce_sequencer [of scenario_env scenario_prepared] scenario_prepare
  by (simp add: scenario_prepared_def)

text \<open>
  Claim C6. In every run that builds the two transactions, the \<open>gas\<close> field of each
  transaction is the estimate the node gave for that transaction's own call, plus 20000.
  The whole run asks for exactly two estimates, the swap's and then the update's, both
  before the transactions are built: building and everything after it ask for none.
\<close>

theorem gas_limit_margin:
  assumes "fst (prepare env []) = Inr p"
  shows "node_estimate_gas (provider env (RPC_URL env)) (p_update_func p) (p_sender p)
           = Inr (p_gas_update p)
       \<and> tx_to (p_tx_update p) = fst (p_update_func p)
       \<and> tx_data (p_tx_update p) = snd (p_update_func p)
       \<and> tx_fields (p_tx_update p) ''gas'' = Some (PyInt (p_gas_update p + 20000))
       \<and> node_estimate_gas (provider env (RPC_URL env)) (p_swap_func p) (p_sender p)
           = Inr (p_gas_swap p)
       \<and> tx_to (p_tx_swap p) = fst (p_swap_func p)
       \<and> tx_data (p_tx_swap p) = snd (p_swap_func p)
       \<and> tx_fields (p_tx_swap p) ''gas'' = Some (PyInt (p_gas_swap p + 20000))
       \<and> filter is_estimate_gas (snd (main env []))
           = [Request (Eth_estimateGas (p_swap_func p) (p_sender p)),
              Request (Eth_estimateGas (p_update_func p) (p_sender p))]"
proof -
  note facts = prepare_Inr [OF assms]
  have pr: "prepare env [] = (Inr p, snd (prepare env []))"
    using assms by (cases "prepare env []") simp
  obtain xs where xs: "snd (main env []) = snd (prepare env []) @ xs"
    "filter is_estimate_gas xs = []"
    using main_trace [OF pr] by blast
  have "filter is_estimate_gas (snd (main env []))
           = [Request (Eth_estimateGas (p_swap_func p) (p_sender p)),
              Request (Eth_estimateGas (p_update_func p) (p_sender p))]"
    using xs facts(13) by simp
  moreover have "tx_fields (p_tx_update p) ''gas'' = Some (PyInt (p_gas_update p + 20000))"
    using facts(11) facts(7) other_fields_build(2) [OF dom_fee_config(2)] by simp
  moreover have "tx_fields (p_tx_swap p) ''gas'' = Some (PyInt (p_gas_swap p + 20000))"
    using facts(12) facts(6) other_fields_build(2) [OF dom_fee_config(1)] by simp
  moreover have "tx_to (p_tx_update p) = fst (p_update_func p)"
    "tx_data (p_tx_update p) = snd (p_update_func p)"
    using facts(11) by (simp_all add: build_transaction_def)
  moreover have "tx_to (p_tx_swap p) = fst (p_swap_func p)"
    "tx_data (p_tx_swap p) = snd (p_swap_func p)"
    using facts(12) by (simp_all add: build_transaction_def)
  ultimately show ?thesis using facts(9) facts(10) by simp
qed

text \<open>
  The concrete run: estimates 60000 and 150000, gas limits 80000 and 170000.
\<close>

theorem gas_limit_margin_witness:
  "fst (prepare scenario_env []) = Inr scenario_prepared
   \<and> node_estimate_gas (provider scenario_env (RPC_URL scenario_env))
        (p_update_func scenario_prepared) ''0xsender'' = Inr 60000
   \<and> tx_fields (p_tx_update scenario_prepared) ''gas'' = Some (PyInt 80000)
   \<and> node_estimate_gas (provider scenario_env (RPC_URL scenario_env))
        (p_swap_func scenario_prepared) ''0xsender'' = Inr 150000
   \<and> tx_fields (p_tx_swap scenario_prepared) ''gas'' = Some (PyInt 170000)
   \<and> length (filter is_estimate_gas (snd (main scenario_env []))) = 2"
  using gas_limit_margin [of scenario_env scenario_prepared, OF scenario_prepare] scenario_prepare
  by (simp add: scenario_prepared_def)

text \<open>
  Claim C10. In every run that constructs the swap call, it is
  \<open>swapXtoY(pairId, 10^18, 0)\<close>: the argument \<open>minAmountYOut\<close> is the constant 0, whatever
  the environment and the node answer, and the built swap transaction carries this call.
\<close>

theorem swap_min_amount_out_zero:
  assumes "fst (prepare env t) = Inr p"
  shows "p_swap_func p = (to_checksum_address env PROP_AMM_ADDRESS,
                          swapXtoY (fromhex (drop 2 PAIR_ID)) (10 ^ 18) 0)
       \<and> tx_data (p_tx_swap p) = swapXtoY (fromhex (drop 2 PAIR_ID)) (10 ^ 18) 0
       \<and> minAmountYOut (tx_data (p_tx_swap p)) = Some 0"
proof -
  note facts = prepare_Inr [OF assms]
  have "p_swap_func p = (to_checksum_address env PROP_AMM_ADDRESS,
                          swapXtoY (fromhex (drop 2 PAIR_ID)) (10 ^ 18) 0)"
    using facts(3) by (simp add: to_wei_ether_def)
  moreover from this have "tx_data (p_tx_swap p) = swapXtoY (fromhex (drop 2 PAIR_ID)) (10 ^ 18) 0"
    using facts(12) by (simp add: build_transaction_def)
  ultimately show ?thesis by simp
qed

text \<open>
  The concrete run.
\<close>

theorem swap_min_amount_out_zero_witness:
  "fst (prepare scenario_env []) = Inr scenario_prepared
   \<and> minAmountYOut (tx_data (p_tx_swap scenario_prepared)) = Some 0
   \<and> tx_data (p_tx_swap scenario_prepared)
       = swapXtoY (fromhex ''667546a103822a3ea5b74bdf319f969f53de0a26339708852cfa21db6575a3be'')
           1000000000000000000 0"
  using swap_min_amount_out_zero [of scenario_env "[]" scenario_prepared, OF scenario_prepare]
    scenario_prepare
  by (simp add: PAIR_ID_def)

subsection \<open>The end-to-end scenario\<close>

text \<open>
  Claim C7, with the number the code computes. With base fee 1,000,000,000 and tips of
  10 gwei and 1 gwei, the high tier's \<open>maxFeePerGas\<close> is
  \<open>2 * 1,000,000,000 + 10,000,000,000 = 12,000,000,000\<close>; with pending count 42 the nonces
  are 42 (update) and 43 (swap); with both receipts in block 757, the swap at index 0 and
  the update at index 1, the verdict is \<open>SameBlockBFirst\<close>. This is the run of \<open>main\<close> on
  \<open>scenario_env\<close>.
\<close>

theorem end_to_end_scenario:
  "fst (main scenario_env []) = Inr (scenario_prepared, scenario_raced, SameBlockBFirst)
   \<and> p_base_fee scenario_prepared = Some 1000000000
   \<and> p_fee_high scenario_prepared ''maxPriorityFeePerGas'' = Some (gwei 10)
   \<and> p_fee_low scenario_prepared ''maxPriorityFeePerGas'' = Some (gwei 1)
   \<and> p_fee_high scenario_prepared ''maxFeePerGas'' = Some 12000000000
   \<and> p_fee_high scenario_prepared = fst (fee_config (Some 1000000000))
   \<and> p_base_nonce scenario_prepared = 42
   \<and> tx_fields (p_tx_update scenario_prepared) ''nonce'' = Some (PyInt 42)
   \<and> tx_fields (p_tx_swap scenario_prepared) ''nonce'' = Some (PyInt 43)
   \<and> blockNumber (r_rcpt_update scenario_raced) = 757
   \<and> blockNumber (r_rcpt_swap scenario_raced) = 757
   \<and> transactionIndex (r_rcpt_swap scenario_raced) = 0
   \<and> transactionIndex (r_rcpt_update scenario_raced) = 1
   \<and> fst (ordering_verdict (r_rcpt_swap scenario_raced) (r_rcpt_update scenario_raced))
       = SameBlockBFirst"
  using scenario_main
  by (simp add: scenario_prepared_def scenario_raced_def scenario_receipt_def gwei_def
      fee_config_def ordering_verdict_def Let_def)

text \<open>
  The high tier's \<open>maxFeePerGas\<close> at base fee 1,000,000,000 is not 2,000,010,000.
\<close>

theorem end_to_end_high_max_fee_counterexample:
  "fst (fee_config (Some 1000000000)) ''maxFeePerGas'' \<noteq> Some 2000010000"
  by (simp add: fee_config_def gwei_def)

end
